theory Spec2Isabelle
  imports Main "HOL-Library.Word"
begin

section \<open>The AirGo panel client (api/airgo/airgo.go)\<close>

text \<open>
  A shallow embedding of the panel client of \<^verbatim>\<open>api/airgo/airgo.go\<close>: the
  validator-token table (\<^verbatim>\<open>updateETag\<close>), the two conditional fetches
  (\<^verbatim>\<open>GetNodeInfo\<close>, \<^verbatim>\<open>GetUserList\<close>), the node mapping
  (\<^verbatim>\<open>ParseAirGoNodeInfo\<close>), the speed-limit resolution
  (\<^verbatim>\<open>calculateSpeedLimit\<close>) and the online-user report
  (\<^verbatim>\<open>ReportNodeOnlineUsers\<close>).

  Conventions. Go's \<^verbatim>\<open>int\<close>, \<^verbatim>\<open>int64\<close> and \<^verbatim>\<open>uint64\<close> are
  \<open>64 word\<close> (the 64-bit targets), \<^verbatim>\<open>uint32\<close> is \<open>32 word\<close>, \<^verbatim>\<open>uint16\<close> is
  \<open>16 word\<close>; a Go string is a \<open>string\<close> (a list of bytes); a nil pointer, a nil byte
  slice and a nil error are \<open>None\<close>; a Go map is a partial function, and reading a missing
  key gives the zero value of the element type. A method with a pointer receiver that
  writes to the receiver returns the updated receiver.
\<close>

subsection \<open>Errors\<close>

text \<open>
  Every error value the file builds. \<open>NodeNotModified\<close> and \<open>UserNotModified\<close> are
  the two sentinels \<^verbatim>\<open>errors.New(api.NodeNotModified)\<close> and
  \<^verbatim>\<open>errors.New(api.UserNotModified)\<close>; \<open>External\<close> is an error handed back by the
  HTTP or JSON library; the others are the \<^verbatim>\<open>fmt.Errorf\<close> wrappers, with the values
  they format.
\<close>

datatype error =
    NodeNotModified
  | UserNotModified
  | External string
  | GetUserListFailed error
  | UnmarshalNodeInfoFailed error
  | UnmarshalUserListFailed error
  | ParseNodeInfoFailed string error
  | SendRequestFailed string error
  | RequestStatusFailed string string

subsection \<open>Records of the panel and of the proxy runtime\<close>

text \<open>
  Modelled from the spec: the declarations of \<^verbatim>\<open>NodeInfoResponse\<close>,
  \<^verbatim>\<open>UserResponse\<close> and \<^verbatim>\<open>OnlineUser\<close> (model.go) and of
  \<^verbatim>\<open>api.NodeInfo\<close>, \<^verbatim>\<open>api.REALITYConfig\<close>, \<^verbatim>\<open>api.UserInfo\<close>,
  \<^verbatim>\<open>api.OnlineUser\<close> and \<^verbatim>\<open>api.DetectRule\<close> (package api) are not part of
  airgo.go. Each record below has exactly the fields that airgo.go reads or writes, under
  the names it uses; a field of the Go struct that airgo.go never assigns keeps its zero
  value in every result and is left out. The numeric type of the node descriptor's
  \<^verbatim>\<open>NodeSpeedLimit\<close> is not fixed by airgo.go (the spec calls it a float, the
  expression type-checks for an integer too), so it is the type parameter \<open>'l\<close>.
\<close>

record 'l NodeInfoResponse =
  NodeSpeedLimit :: 'l
  Protocol :: string
  Network :: string
  Security :: string
  Port :: "64 word"
  Path :: string
  Host :: string
  ServiceName :: string
  Type :: string
  VlessFlow :: string
  Scy :: string
  ServerKey :: string
  Dest :: string
  Sni :: string
  PrivateKey :: string

record REALITYConfig =
  Dest :: string
  ProxyProtocolVer :: "64 word"
  ServerNames :: "string list"
  PrivateKey :: string
  MinClientVer :: string
  MaxClientVer :: string
  MaxTimeDiff :: "64 word"
  ShortIds :: "string list"

record NodeInfo =
  NodeType :: string
  NodeID :: "64 word"
  Port :: "32 word"
  SpeedLimit :: "64 word"
  AlterID :: "16 word"
  TransportProtocol :: string
  Host :: string
  Path :: string
  EnableTLS :: bool
  EnableVless :: bool
  VlessFlow :: string
  CypherMethod :: string
  ServerKey :: string
  ServiceName :: string
  Header :: "string option"
  EnableREALITY :: bool
  REALITYConfig :: "REALITYConfig option"

record UserResponse =
  ID :: "64 word"
  UUID :: string
  Passwd :: string
  UserName :: string
  NodeSpeedLimit :: "64 word"
  NodeConnector :: "64 word"

record UserInfo =
  UID :: "64 word"
  Email :: string
  UUID :: string
  Passwd :: string
  SpeedLimit :: "64 word"
  DeviceLimit :: "64 word"

record DetectRule =
  ID :: int
  Pattern :: string

text \<open>One observation \<^verbatim>\<open>api.OnlineUser\<close> and the request body \<^verbatim>\<open>OnlineUser\<close>.\<close>

record api_OnlineUser =
  UID :: "64 word"
  IP :: string

record OnlineUser =
  NodeID :: "64 word"
  UserNodeMap :: "64 word \<rightharpoonup> string list"

text \<open>
  The client. The \<^verbatim>\<open>client *resty.Client\<close> field is the transport of
  \<open>extern\<close> below; \<^verbatim>\<open>SpeedLimit\<close> is a \<^verbatim>\<open>float64\<close>, the type parameter \<open>'f\<close>.
\<close>

record 'f APIClient =
  APIHost :: string
  NodeID :: "64 word"
  Key :: string
  NodeType :: string
  EnableVless :: bool
  VlessFlow :: string
  SpeedLimit :: 'f
  DeviceLimit :: "64 word"
  LocalRuleList :: "DetectRule list"
  eTags :: "string \<rightharpoonup> string"

subsection \<open>What the libraries do\<close>

text \<open>
  The value handed to \<^verbatim>\<open>json.Marshal\<close> for the camouflage header: nested
  \<^verbatim>\<open>map[string]any\<close> and \<^verbatim>\<open>[]string\<close> literals. An object is the list of its
  entries in the order of the source text.
\<close>

datatype json =
    JString string
  | JArray "json list"
  | JObject "(string \<times> json) list"

text \<open>
  A request built by \<^verbatim>\<open>c.client.R()\<close> for a GET: the path, the \<^verbatim>\<open>id\<close> query
  parameter (the node id, which the source prints in decimal) and the
  \<^verbatim>\<open>If-None-Match\<close> header. A response: its status code and status line, its header
  (canonical key to first value) and its body.
\<close>

record get_request =
  req_path :: string
  req_id :: "64 word"
  req_if_none_match :: string

record response =
  StatusCode :: int
  Status :: string
  ResHeader :: "string \<rightharpoonup> string"
  Body :: string

text \<open>
  The code outside the repository, as parameters: the HTTP client (\<open>Get\<close>, and
  \<open>Post\<close> with the body of the online-user report, the one report modelled here),
  \<^verbatim>\<open>json.Unmarshal\<close> at the two types it is used at, \<^verbatim>\<open>json.Marshal\<close>,
  and the arithmetic on \<^verbatim>\<open>float64\<close>, which HOL does not have:
  \<open>float_of_int64 x\<close> is \<^verbatim>\<open>float64(x)\<close>, \<open>float_bytes x\<close> is
  \<^verbatim>\<open>uint64((x * 1000000) / 8)\<close> for a \<^verbatim>\<open>float64\<close> \<open>x\<close>; \<open>limit_pos x\<close> is
  \<^verbatim>\<open>x > 0\<close> and \<open>limit_bytes x\<close> is \<^verbatim>\<open>uint64((x * 1000000) / 8)\<close> in the numeric
  type of the node descriptor's \<^verbatim>\<open>NodeSpeedLimit\<close>.
\<close>

record ('f, 'l) extern =
  Get :: "get_request \<Rightarrow> response \<times> error option"
  Post :: "string \<Rightarrow> OnlineUser \<Rightarrow> response \<times> error option"
  Unmarshal_node :: "string \<Rightarrow> error + 'l NodeInfoResponse"
  Unmarshal_users :: "string \<Rightarrow> error + UserResponse list"
  Marshal :: "json \<Rightarrow> error + string"
  float_of_int64 :: "64 word \<Rightarrow> 'f"
  float_bytes :: "'f \<Rightarrow> 64 word"
  limit_pos :: "'l \<Rightarrow> bool"
  limit_bytes :: "'l \<Rightarrow> 64 word"

subsection \<open>Zero values\<close>

definition zero_REALITYConfig :: REALITYConfig where
  "zero_REALITYConfig =
     \<lparr>REALITYConfig.Dest = [], ProxyProtocolVer = 0, ServerNames = [],
      REALITYConfig.PrivateKey = [], MinClientVer = [], MaxClientVer = [],
      MaxTimeDiff = 0, ShortIds = []\<rparr>"

definition zero_NodeInfo :: NodeInfo where
  "zero_NodeInfo =
     \<lparr>NodeInfo.NodeType = [], NodeInfo.NodeID = 0, NodeInfo.Port = 0,
      NodeInfo.SpeedLimit = 0, AlterID = 0, TransportProtocol = [],
      NodeInfo.Host = [], NodeInfo.Path = [], EnableTLS = False,
      NodeInfo.EnableVless = False, NodeInfo.VlessFlow = [], CypherMethod = [],
      NodeInfo.ServerKey = [], NodeInfo.ServiceName = [], Header = None,
      EnableREALITY = False, REALITYConfig = None\<rparr>"

definition zero_UserInfo :: UserInfo where
  "zero_UserInfo =
     \<lparr>UserInfo.UID = 0, Email = [], UserInfo.UUID = [], UserInfo.Passwd = [],
      UserInfo.SpeedLimit = 0, UserInfo.DeviceLimit = 0\<rparr>"

subsection \<open>ParseAirGoNodeInfo\<close>

text \<open>
  The literal \<^verbatim>\<open>h = map[string]any{"type": "http", "request": ...}\<close>, written three
  times in the source with the same text.
\<close>

definition camouflage :: "'l NodeInfoResponse \<Rightarrow> json" where
  "camouflage n =
     JObject
       [(''type'', JString ''http''),
        (''request'',
           JObject
             [(''path'', JArray [JString (NodeInfoResponse.Path n)]),
              (''headers'',
                 JObject [(''Host'', JArray [JString (NodeInfoResponse.Host n)])])])]"

text \<open>
  \<^verbatim>\<open>header, _ = json.Marshal(h); nodeInfo.Header = header\<close>: the error is dropped, and
  \<^verbatim>\<open>json.Marshal\<close> returns a nil slice with an error.
\<close>

definition marshal_bytes :: "('f, 'l) extern \<Rightarrow> json \<Rightarrow> string option" where
  "marshal_bytes x h = (case Marshal x h of Inr b \<Rightarrow> Some b | Inl e \<Rightarrow> None)"

definition set_Header :: "('f, 'l) extern \<Rightarrow> json \<Rightarrow> NodeInfo \<Rightarrow> NodeInfo" where
  "set_Header x h nodeInfo = nodeInfo\<lparr>Header := marshal_bytes x h\<rparr>"

text \<open>
  The inner \<^verbatim>\<open>switch n.Network\<close> of the vless and vmess cases: the cases
  \<^verbatim>\<open>"grpc"\<close> and \<^verbatim>\<open>"ws"\<close> are empty, \<^verbatim>\<open>"tcp"\<close> tests \<^verbatim>\<open>n.Type\<close>, and there
  is no default.
\<close>

definition switch_Network ::
  "('f, 'l) extern \<Rightarrow> 'l NodeInfoResponse \<Rightarrow> NodeInfo \<Rightarrow> NodeInfo" where
  "switch_Network x n nodeInfo =
     (if Network n = ''grpc'' then nodeInfo
      else if Network n = ''ws'' then nodeInfo
      else if Network n = ''tcp'' then
        (if Type n = ''http'' then set_Header x (camouflage n) nodeInfo else nodeInfo)
      else nodeInfo)"

definition ParseAirGoNodeInfo ::
  "('f, 'l) extern \<Rightarrow> 'f APIClient \<Rightarrow> 'l NodeInfoResponse \<Rightarrow> NodeInfo \<times> error option" where
  "ParseAirGoNodeInfo x c n =
     (let speedLimit =
            (if limit_pos x (NodeInfoResponse.NodeSpeedLimit n)
             then limit_bytes x (NodeInfoResponse.NodeSpeedLimit n)
             else float_bytes x (APIClient.SpeedLimit c));
          enableTLS = (if Security n = ''none'' \<or> Security n = [] then False else True);
          enableREALITY = (if Security n = ''reality'' then True else False);
          realityConfig =
            (if Security n = ''reality'' then
               \<lparr>REALITYConfig.Dest = NodeInfoResponse.Dest n,
                ProxyProtocolVer = 0,
                ServerNames = [Sni n],
                REALITYConfig.PrivateKey = NodeInfoResponse.PrivateKey n,
                MinClientVer = [],
                MaxClientVer = [],
                MaxTimeDiff = 0,
                ShortIds = [[], ''0123456789abcdef'']\<rparr>
             else zero_REALITYConfig);
          nodeInfo =
            (if Protocol n = ''vless'' \<or> Protocol n = ''Vless'' then
               switch_Network x n
                 (zero_NodeInfo
                    \<lparr>NodeInfo.EnableVless := True,
                     NodeInfo.VlessFlow := NodeInfoResponse.VlessFlow n,
                     NodeInfo.NodeType := APIClient.NodeType c,
                     NodeInfo.NodeID := APIClient.NodeID c,
                     NodeInfo.Port := ucast (NodeInfoResponse.Port n),
                     NodeInfo.SpeedLimit := speedLimit,
                     TransportProtocol := Network n,
                     EnableTLS := enableTLS,
                     NodeInfo.Path := NodeInfoResponse.Path n,
                     NodeInfo.Host := NodeInfoResponse.Host n,
                     NodeInfo.ServiceName := NodeInfoResponse.ServiceName n,
                     EnableREALITY := enableREALITY,
                     REALITYConfig := Some realityConfig\<rparr>)
             else if Protocol n = ''vmess'' \<or> Protocol n = ''Vmess'' then
               switch_Network x n
                 (zero_NodeInfo
                    \<lparr>NodeInfo.EnableVless := False,
                     NodeInfo.NodeType := APIClient.NodeType c,
                     NodeInfo.NodeID := APIClient.NodeID c,
                     NodeInfo.Port := ucast (NodeInfoResponse.Port n),
                     NodeInfo.SpeedLimit := speedLimit,
                     AlterID := 0,
                     TransportProtocol := Network n,
                     EnableTLS := enableTLS,
                     NodeInfo.Path := NodeInfoResponse.Path n,
                     NodeInfo.Host := NodeInfoResponse.Host n,
                     CypherMethod := Scy n,
                     NodeInfo.ServiceName := NodeInfoResponse.ServiceName n,
                     EnableREALITY := enableREALITY\<rparr>)
             else if Protocol n = ''Shadowsocks'' \<or> Protocol n = ''shadowsocks'' then
               (let nodeInfo =
                      zero_NodeInfo
                        \<lparr>NodeInfo.NodeType := APIClient.NodeType c,
                         NodeInfo.NodeID := APIClient.NodeID c,
                         NodeInfo.Port := ucast (NodeInfoResponse.Port n),
                         NodeInfo.SpeedLimit := speedLimit,
                         TransportProtocol := ''tcp'',
                         CypherMethod := Scy n,
                         NodeInfo.ServerKey := NodeInfoResponse.ServerKey n\<rparr>
                in if Type n = ''http'' then set_Header x (camouflage n) nodeInfo
                   else nodeInfo)
             else zero_NodeInfo)
      in (nodeInfo, None))"

subsection \<open>The validator-token table\<close>

text \<open>\<^verbatim>\<open>c.eTags[key]\<close> and \<^verbatim>\<open>res.Header().Get(key)\<close>: a missing key reads as \<^verbatim>\<open>""\<close>.\<close>

definition lookup :: "(string \<rightharpoonup> string) \<Rightarrow> string \<Rightarrow> string" where
  "lookup m k = (case m k of None \<Rightarrow> [] | Some v \<Rightarrow> v)"

definition updateETag :: "'f APIClient \<Rightarrow> response \<Rightarrow> string \<Rightarrow> 'f APIClient" where
  "updateETag c res key =
     (let etag = lookup (ResHeader res) ''Etag''
      in if etag \<noteq> [] \<and> etag \<noteq> lookup (eTags c) key
         then c\<lparr>eTags := (eTags c)(key \<mapsto> etag)\<rparr>
         else c)"

subsection \<open>GetNodeInfo\<close>

text \<open>
  The result is the returned pair, as an error or a configuration, with the client after
  the call. The error of \<^verbatim>\<open>Get\<close> is not looked at before the status code is.
\<close>

definition node_request :: "'f APIClient \<Rightarrow> get_request" where
  "node_request c =
     \<lparr>req_path = ''/api/public/airgo/node/getNodeInfo'',
      req_id = APIClient.NodeID c,
      req_if_none_match = lookup (eTags c) ''node''\<rparr>"

definition GetNodeInfo ::
  "('f, 'l) extern \<Rightarrow> 'f APIClient \<Rightarrow> (error + NodeInfo) \<times> 'f APIClient" where
  "GetNodeInfo x c =
     (let (res, err) = Get x (node_request c)
      in if StatusCode res = 304 then (Inl NodeNotModified, c)
         else
           (let c' = updateETag c res ''node''
            in case Unmarshal_node x (Body res) of
                 Inl e \<Rightarrow> (Inl (UnmarshalNodeInfoFailed e), c')
               | Inr nodeInfoResponse \<Rightarrow>
                   (case ParseAirGoNodeInfo x c' nodeInfoResponse of
                      (nodeInfo, Some e) \<Rightarrow> (Inl (ParseNodeInfoFailed (Body res) e), c')
                    | (nodeInfo, None) \<Rightarrow> (Inr nodeInfo, c'))))"

subsection \<open>calculateSpeedLimit and GetUserList\<close>

text \<open>\<^verbatim>\<open>nodeSpeedLimit > 0\<close> compares an \<^verbatim>\<open>int64\<close>: the signed order.\<close>

definition calculateSpeedLimit :: "('f, 'l) extern \<Rightarrow> 64 word \<Rightarrow> 'f \<Rightarrow> 64 word" where
  "calculateSpeedLimit x nodeSpeedLimit defaultSpeedLimit =
     (if 0 <s nodeSpeedLimit then float_bytes x (float_of_int64 x nodeSpeedLimit)
      else float_bytes x defaultSpeedLimit)"

text \<open>
  The loop \<^verbatim>\<open>for i, v := range userResponse { userInfo[i] = ... }\<close>: \<open>i\<close> is the
  index of the head of the remaining descriptors, \<open>userInfo\<close> the slice written so far.
  The slice is made with the length of \<^verbatim>\<open>userResponse\<close>, so every index written is in
  range.
\<close>

fun fill_userInfo ::
  "('f, 'l) extern \<Rightarrow> 'f APIClient \<Rightarrow> nat \<Rightarrow> UserResponse list \<Rightarrow> UserInfo list \<Rightarrow> UserInfo list"
where
  "fill_userInfo x c i [] userInfo = userInfo"
| "fill_userInfo x c i (v # vs) userInfo =
     (let speedLimit =
            calculateSpeedLimit x (UserResponse.NodeSpeedLimit v) (APIClient.SpeedLimit c)
      in fill_userInfo x c (Suc i) vs
           (userInfo
              [i := \<lparr>UserInfo.UID = UserResponse.ID v,
                     Email = UserName v,
                     UserInfo.UUID = UserResponse.UUID v,
                     UserInfo.Passwd = UserResponse.Passwd v,
                     UserInfo.SpeedLimit = speedLimit,
                     UserInfo.DeviceLimit = NodeConnector v\<rparr>]))"

definition userlist_request :: "'f APIClient \<Rightarrow> get_request" where
  "userlist_request c =
     \<lparr>req_path = ''/api/public/airgo/user/getUserlist'',
      req_id = APIClient.NodeID c,
      req_if_none_match = lookup (eTags c) ''userlist''\<rparr>"

definition GetUserList ::
  "('f, 'l) extern \<Rightarrow> 'f APIClient \<Rightarrow> (error + UserInfo list) \<times> 'f APIClient" where
  "GetUserList x c =
     (let (res, err) = Get x (userlist_request c)
      in case err of
           Some e \<Rightarrow> (Inl (GetUserListFailed e), c)
         | None \<Rightarrow>
             if StatusCode res = 304 then (Inl UserNotModified, c)
             else
               (let c' = updateETag c res ''userlist''
                in case Unmarshal_users x (Body res) of
                     Inl e \<Rightarrow> (Inl (UnmarshalUserListFailed e), c')
                   | Inr userResponse \<Rightarrow>
                       (let userInfo = replicate (length userResponse) zero_UserInfo
                        in (Inr (fill_userInfo x c' 0 userResponse userInfo), c'))))"

subsection \<open>ReportNodeOnlineUsers\<close>

definition assembleURL :: "'f APIClient \<Rightarrow> string \<Rightarrow> string" where
  "assembleURL c path = APIHost c @ path"

definition postRequest ::
  "('f, 'l) extern \<Rightarrow> 'f APIClient \<Rightarrow> string \<Rightarrow> OnlineUser \<Rightarrow> error option" where
  "postRequest x c path body =
     (case Post x path body of
        (res, Some err) \<Rightarrow> Some (SendRequestFailed (assembleURL c path) err)
      | (res, None) \<Rightarrow>
          if StatusCode res \<noteq> 200
          then Some (RequestStatusFailed (assembleURL c path) (Status res))
          else None)"

text \<open>
  The loop \<^verbatim>\<open>for _, v := range *onlineUserList\<close> on the map under construction.
  \<^verbatim>\<open>append\<close> to the nil slice read at a missing key gives the one-element slice.
\<close>

fun group_online ::
  "api_OnlineUser list \<Rightarrow> (64 word \<rightharpoonup> string list) \<Rightarrow> (64 word \<rightharpoonup> string list)" where
  "group_online [] m = m"
| "group_online (v # vs) m =
     group_online vs
       (m(api_OnlineUser.UID v \<mapsto>
            (case m (api_OnlineUser.UID v) of None \<Rightarrow> [] | Some ips \<Rightarrow> ips) @ [IP v]))"

definition ReportNodeOnlineUsers ::
  "('f, 'l) extern \<Rightarrow> 'f APIClient \<Rightarrow> api_OnlineUser list \<Rightarrow> error option" where
  "ReportNodeOnlineUsers x c onlineUserList =
     (let onlineUser =
            \<lparr>OnlineUser.NodeID = APIClient.NodeID c,
             UserNodeMap = group_online onlineUserList Map.empty\<rparr>
      in postRequest x c ''/api/public/airgo/user/AGReportNodeOnlineUsers'' onlineUser)"

subsection \<open>The report and the user record in the words of the specification\<close>

text \<open>
  The grouping of the observations as the specification words it: a user id that occurs
  in the observations is mapped to the IPs of its observations, in observation order and
  with repetitions; no other user id is a key.
\<close>

definition grouping_spec :: "api_OnlineUser list \<Rightarrow> (64 word \<rightharpoonup> string list)" where
  "grouping_spec obs =
     (\<lambda>uid. if uid \<in> api_OnlineUser.UID ` set obs
            then Some (map IP (filter (\<lambda>v. api_OnlineUser.UID v = uid) obs))
            else None)"

text \<open>
  The normalized user record as the specification words it: identifier, credentials and
  connection limit copied, the speed limit from the user's own limit when that is
  positive and from the session default \<open>d\<close> otherwise.
\<close>

definition user_record_spec :: "('f, 'l) extern \<Rightarrow> 'f \<Rightarrow> UserResponse \<Rightarrow> UserInfo" where
  "user_record_spec x d v =
     \<lparr>UserInfo.UID = UserResponse.ID v,
      Email = UserName v,
      UserInfo.UUID = UserResponse.UUID v,
      UserInfo.Passwd = UserResponse.Passwd v,
      UserInfo.SpeedLimit =
        (if 0 <s UserResponse.NodeSpeedLimit v
         then float_bytes x (float_of_int64 x (UserResponse.NodeSpeedLimit v))
         else float_bytes x d),
      UserInfo.DeviceLimit = NodeConnector v\<rparr>"

subsection \<open>Sample inputs\<close>

text \<open>
  A vless node over tcp with REALITY and http camouflage, and the bytes
  \<^verbatim>\<open>json.Marshal\<close> gives for its camouflage header (keys in sorted order).
\<close>

definition sample_node :: "int NodeInfoResponse" where
  "sample_node =
     \<lparr>NodeInfoResponse.NodeSpeedLimit = 100, Protocol = ''vless'', Network = ''tcp'',
      Security = ''reality'', NodeInfoResponse.Port = 443,
      NodeInfoResponse.Path = ''/ray'', NodeInfoResponse.Host = ''cdn.example'',
      NodeInfoResponse.ServiceName = ''svc'', Type = ''http'',
      NodeInfoResponse.VlessFlow = ''xtls-rprx-vision'', Scy = ''auto'',
      NodeInfoResponse.ServerKey = ''k'', NodeInfoResponse.Dest = ''www.example:443'',
      Sni = ''www.example'', NodeInfoResponse.PrivateKey = ''pk''\<rparr>"

definition dq :: string where
  "dq = [CHR 0x22]"

definition sample_blob :: string where
  "sample_blob =
     ''{'' @ dq @ ''request'' @ dq @ '':{'' @ dq @ ''headers'' @ dq @ '':{''
       @ dq @ ''Host'' @ dq @ '':['' @ dq @ ''cdn.example'' @ dq @ '']},''
       @ dq @ ''path'' @ dq @ '':['' @ dq @ ''/ray'' @ dq @ '']},''
       @ dq @ ''type'' @ dq @ '':'' @ dq @ ''http'' @ dq @ ''}''"

text \<open>Two users: one with a limit of its own, one on the session default.\<close>

definition sample_users :: "UserResponse list" where
  "sample_users =
     [\<lparr>UserResponse.ID = 1, UserResponse.UUID = ''u-1'', UserResponse.Passwd = ''p1'',
       UserName = ''ann@example'', UserResponse.NodeSpeedLimit = 100, NodeConnector = 3\<rparr>,
      \<lparr>UserResponse.ID = 2, UserResponse.UUID = ''u-2'', UserResponse.Passwd = ''p2'',
       UserName = ''bob@example'', UserResponse.NodeSpeedLimit = 0, NodeConnector = 0\<rparr>]"

text \<open>
  A panel whose resources carry the validator \<^verbatim>\<open>v2\<close>: a request that presents
  \<^verbatim>\<open>v2\<close> is answered 304, any other gets the resource with the validator. The
  bodies stand for the JSON texts, which \<open>Unmarshal_node\<close> and \<open>Unmarshal_users\<close>
  decode to the sample node and users. The arithmetic is the exact one on whole numbers
  of Mbps, which \<^verbatim>\<open>float64\<close> represents without rounding in this range.
\<close>

definition sample_extern :: "(int, int) extern" where
  "sample_extern =
     \<lparr>Get =
        (\<lambda>r. if req_if_none_match r = ''v2''
             then (\<lparr>StatusCode = 304, Status = ''304 Not Modified'',
                    ResHeader = Map.empty, Body = []\<rparr>, None)
             else (\<lparr>StatusCode = 200, Status = ''200 OK'',
                    ResHeader = [''Etag'' \<mapsto> ''v2''],
                    Body = (if req_path r = ''/api/public/airgo/node/getNodeInfo''
                            then ''node-json'' else ''users-json'')\<rparr>, None)),
      Post =
        (\<lambda>p b. (\<lparr>StatusCode = 200, Status = ''200 OK'', ResHeader = Map.empty,
                  Body = []\<rparr>, None)),
      Unmarshal_node =
        (\<lambda>b. if b = ''node-json'' then Inr sample_node
             else Inl (External ''unexpected end of JSON input'')),
      Unmarshal_users =
        (\<lambda>b. if b = ''users-json'' then Inr sample_users
             else Inl (External ''unexpected end of JSON input'')),
      Marshal =
        (\<lambda>h. if h = camouflage sample_node then Inr sample_blob
             else Inl (External ''json: unsupported value'')),
      float_of_int64 = sint,
      float_bytes = (\<lambda>v. word_of_int ((v * 1000000) div 8)),
      limit_pos = (\<lambda>v. 0 < v),
      limit_bytes = (\<lambda>v. word_of_int ((v * 1000000) div 8))\<rparr>"

definition sample_client :: "int APIClient" where
  "sample_client =
     \<lparr>APIHost = ''https://panel.example'', APIClient.NodeID = 7, Key = ''secret'',
      APIClient.NodeType = ''V2ray'', APIClient.EnableVless = False,
      APIClient.VlessFlow = [], APIClient.SpeedLimit = 50, APIClient.DeviceLimit = 0,
      LocalRuleList = [], eTags = Map.empty\<rparr>"

text \<open>The sample client after a fetch of both resources.\<close>

definition sample_cached :: "int APIClient" where
  "sample_cached = sample_client\<lparr>eTags := [''node'' \<mapsto> ''v2'', ''userlist'' \<mapsto> ''v2'']\<rparr>"

definition sample_online :: "api_OnlineUser list" where
  "sample_online =
     [\<lparr>api_OnlineUser.UID = 1, IP = ''1.1.1.1''\<rparr>,
      \<lparr>api_OnlineUser.UID = 1, IP = ''1.1.1.1''\<rparr>,
      \<lparr>api_OnlineUser.UID = 2, IP = ''2.2.2.2''\<rparr>]"

section \<open>Theorems\<close>

subsection \<open>Auxiliary facts\<close>

lemmas parse_defs =
  ParseAirGoNodeInfo_def switch_Network_def set_Header_def zero_NodeInfo_def Let_def

lemma parse_EnableREALITY:
  "EnableREALITY (fst (ParseAirGoNodeInfo x c n)) =
     (Protocol n \<in> {''vless'', ''Vless'', ''vmess'', ''Vmess''} \<and> Security n = ''reality'')"
  by (auto simp: parse_defs)

lemma parse_EnableTLS:
  "EnableTLS (fst (ParseAirGoNodeInfo x c n)) =
     (Protocol n \<in> {''vless'', ''Vless'', ''vmess'', ''Vmess''}
      \<and> Security n \<noteq> ''none'' \<and> Security n \<noteq> [])"
  by (auto simp: parse_defs)

lemma parse_REALITYConfig_vless:
  "Protocol n \<in> {''vless'', ''Vless''} \<Longrightarrow>
   REALITYConfig (fst (ParseAirGoNodeInfo x c n)) =
     Some (if Security n = ''reality'' then
             \<lparr>REALITYConfig.Dest = NodeInfoResponse.Dest n, ProxyProtocolVer = 0,
              ServerNames = [Sni n],
              REALITYConfig.PrivateKey = NodeInfoResponse.PrivateKey n,
              MinClientVer = [], MaxClientVer = [], MaxTimeDiff = 0,
              ShortIds = [[], ''0123456789abcdef'']\<rparr>
           else zero_REALITYConfig)"
  by (auto simp: parse_defs)

lemma parse_REALITYConfig_nil:
  "Protocol n \<notin> {''vless'', ''Vless''} \<Longrightarrow>
   REALITYConfig (fst (ParseAirGoNodeInfo x c n)) = None"
  by (auto simp: parse_defs)

lemma parse_TransportProtocol:
  "TransportProtocol (fst (ParseAirGoNodeInfo x c n)) =
     (if Protocol n \<in> {''vless'', ''Vless'', ''vmess'', ''Vmess''} then Network n
      else if Protocol n \<in> {''Shadowsocks'', ''shadowsocks''} then ''tcp''
      else [])"
  by (auto simp: parse_defs)

lemma parse_Header:
  "Header (fst (ParseAirGoNodeInfo x c n)) =
     (if TransportProtocol (fst (ParseAirGoNodeInfo x c n)) = ''tcp'' \<and> Type n = ''http''
      then marshal_bytes x (camouflage n) else None)"
  by (simp add: parse_defs)

text \<open>
  The vmess case sets \<^verbatim>\<open>EnableREALITY\<close> and leaves \<^verbatim>\<open>REALITYConfig\<close> nil, where
  the vless case above it stores the configuration: on the sample node with the protocol
  changed to vmess, REALITY is on and there is no configuration.
\<close>

lemma vmess_reality_without_config:
  "EnableREALITY (fst (ParseAirGoNodeInfo sample_extern sample_client
      (sample_node\<lparr>Protocol := ''vmess''\<rparr>)))
   \<and> REALITYConfig (fst (ParseAirGoNodeInfo sample_extern sample_client
      (sample_node\<lparr>Protocol := ''vmess''\<rparr>))) = None"
  by (simp add: parse_defs sample_node_def)

subsection \<open>Security modes\<close>

text \<open>
  C1, as stated, fails: on the sample node (vless, security \<^verbatim>\<open>reality\<close>) the output
  has \<^verbatim>\<open>EnableTLS\<close> and \<^verbatim>\<open>EnableREALITY\<close> both true.
\<close>

theorem reality_sets_both_flags:
  "EnableTLS (fst (ParseAirGoNodeInfo sample_extern sample_client sample_node))
   \<and> EnableREALITY (fst (ParseAirGoNodeInfo sample_extern sample_client sample_node))"
  by (simp add: parse_defs sample_node_def)

text \<open>
  C1, amended. For every descriptor the two flags of the output are fixed by the protocol
  and the security mode: \<^verbatim>\<open>EnableREALITY\<close> is true exactly when the protocol is one of
  vless, Vless, vmess, Vmess and the security mode is \<^verbatim>\<open>reality\<close>; \<^verbatim>\<open>EnableTLS\<close> is
  true exactly when the protocol is one of these and the security mode is neither
  \<^verbatim>\<open>none\<close> nor empty. So an output has neither flag, or TLS alone, or both; it has
  both exactly for security \<^verbatim>\<open>reality\<close> on vless or vmess, and never REALITY without
  TLS.
\<close>

theorem security_flags:
  "EnableREALITY (fst (ParseAirGoNodeInfo x c n)) =
     (Protocol n \<in> {''vless'', ''Vless'', ''vmess'', ''Vmess''} \<and> Security n = ''reality'')
   \<and> EnableTLS (fst (ParseAirGoNodeInfo x c n)) =
     (Protocol n \<in> {''vless'', ''Vless'', ''vmess'', ''Vmess''}
      \<and> Security n \<noteq> ''none'' \<and> Security n \<noteq> [])
   \<and> ((EnableTLS (fst (ParseAirGoNodeInfo x c n))
        \<and> EnableREALITY (fst (ParseAirGoNodeInfo x c n))) =
       (Protocol n \<in> {''vless'', ''Vless'', ''vmess'', ''Vmess''} \<and> Security n = ''reality''))
   \<and> (EnableREALITY (fst (ParseAirGoNodeInfo x c n))
        \<longrightarrow> EnableTLS (fst (ParseAirGoNodeInfo x c n)))"
  unfolding parse_EnableREALITY parse_EnableTLS by auto

theorem security_flags_witness:
  "EnableREALITY (fst (ParseAirGoNodeInfo sample_extern sample_client sample_node))
   \<and> EnableTLS (fst (ParseAirGoNodeInfo sample_extern sample_client sample_node))
   \<and> \<not> EnableREALITY (fst (ParseAirGoNodeInfo sample_extern sample_client
          (sample_node\<lparr>Security := ''tls''\<rparr>)))
   \<and> EnableTLS (fst (ParseAirGoNodeInfo sample_extern sample_client
          (sample_node\<lparr>Security := ''tls''\<rparr>)))
   \<and> \<not> EnableTLS (fst (ParseAirGoNodeInfo sample_extern sample_client
          (sample_node\<lparr>Security := ''none''\<rparr>)))"
  using security_flags [of sample_extern sample_client sample_node]
    security_flags [of sample_extern sample_client "sample_node\<lparr>Security := ''tls''\<rparr>"]
    security_flags [of sample_extern sample_client "sample_node\<lparr>Security := ''none''\<rparr>"]
  by (simp add: sample_node_def)

text \<open>
  C2, as stated, fails: a shadowsocks descriptor with security \<^verbatim>\<open>reality\<close> is a
  recognised protocol with that security mode, and its output has
  \<^verbatim>\<open>EnableREALITY\<close> false and no REALITY configuration.
\<close>

theorem shadowsocks_reality_not_enabled:
  "Protocol (sample_node\<lparr>Protocol := ''shadowsocks''\<rparr>) = ''shadowsocks''
   \<and> Security (sample_node\<lparr>Protocol := ''shadowsocks''\<rparr>) = ''reality''
   \<and> \<not> EnableREALITY (fst (ParseAirGoNodeInfo sample_extern sample_client
          (sample_node\<lparr>Protocol := ''shadowsocks''\<rparr>)))
   \<and> REALITYConfig (fst (ParseAirGoNodeInfo sample_extern sample_client
          (sample_node\<lparr>Protocol := ''shadowsocks''\<rparr>))) = None"
  by (simp add: parse_defs sample_node_def)

text \<open>
  C2, amended. For security \<^verbatim>\<open>none\<close> or empty the output has \<^verbatim>\<open>EnableTLS\<close> and
  \<^verbatim>\<open>EnableREALITY\<close> false, whatever the protocol. For security \<^verbatim>\<open>reality\<close>: with
  protocol vless or Vless the output has \<^verbatim>\<open>EnableREALITY\<close> true and the REALITY
  configuration with \<^verbatim>\<open>Dest\<close> and \<^verbatim>\<open>PrivateKey\<close> copied, \<^verbatim>\<open>ServerNames\<close> the
  one-element list of the SNI, \<^verbatim>\<open>ShortIds\<close> the empty string and
  \<^verbatim>\<open>0123456789abcdef\<close>, the two numbers zero and the two versions empty; with
  protocol vmess or Vmess the output has \<^verbatim>\<open>EnableREALITY\<close> true; with protocol
  shadowsocks or Shadowsocks it has \<^verbatim>\<open>EnableREALITY\<close> false and no REALITY
  configuration.
\<close>

theorem security_mode_outputs:
  "(Security n = ''none'' \<or> Security n = [] \<longrightarrow>
      \<not> EnableTLS (fst (ParseAirGoNodeInfo x c n))
      \<and> \<not> EnableREALITY (fst (ParseAirGoNodeInfo x c n)))
   \<and> (Security n = ''reality'' \<and> Protocol n \<in> {''vless'', ''Vless''} \<longrightarrow>
      EnableREALITY (fst (ParseAirGoNodeInfo x c n))
      \<and> REALITYConfig (fst (ParseAirGoNodeInfo x c n)) =
          Some \<lparr>REALITYConfig.Dest = NodeInfoResponse.Dest n, ProxyProtocolVer = 0,
                ServerNames = [Sni n],
                REALITYConfig.PrivateKey = NodeInfoResponse.PrivateKey n,
                MinClientVer = [], MaxClientVer = [], MaxTimeDiff = 0,
                ShortIds = [[], ''0123456789abcdef'']\<rparr>)
   \<and> (Security n = ''reality'' \<and> Protocol n \<in> {''vmess'', ''Vmess''} \<longrightarrow>
      EnableREALITY (fst (ParseAirGoNodeInfo x c n)))
   \<and> (Protocol n \<in> {''Shadowsocks'', ''shadowsocks''} \<longrightarrow>
      \<not> EnableREALITY (fst (ParseAirGoNodeInfo x c n))
      \<and> REALITYConfig (fst (ParseAirGoNodeInfo x c n)) = None)"
proof -
  have "Protocol n \<in> {''vless'', ''Vless''} \<Longrightarrow> Security n = ''reality'' \<Longrightarrow>
        REALITYConfig (fst (ParseAirGoNodeInfo x c n)) =
          Some \<lparr>REALITYConfig.Dest = NodeInfoResponse.Dest n, ProxyProtocolVer = 0,
                ServerNames = [Sni n],
                REALITYConfig.PrivateKey = NodeInfoResponse.PrivateKey n,
                MinClientVer = [], MaxClientVer = [], MaxTimeDiff = 0,
                ShortIds = [[], ''0123456789abcdef'']\<rparr>"
    by (simp add: parse_REALITYConfig_vless)
  moreover have "Protocol n \<in> {''Shadowsocks'', ''shadowsocks''} \<Longrightarrow>
        REALITYConfig (fst (ParseAirGoNodeInfo x c n)) = None"
    by (rule parse_REALITYConfig_nil) auto
  ultimately show ?thesis
    unfolding parse_EnableREALITY parse_EnableTLS by auto
qed

theorem security_mode_outputs_witness:
  "\<not> EnableTLS (fst (ParseAirGoNodeInfo sample_extern sample_client
        (sample_node\<lparr>Security := ''none''\<rparr>)))
   \<and> \<not> EnableREALITY (fst (ParseAirGoNodeInfo sample_extern sample_client
        (sample_node\<lparr>Security := ''none''\<rparr>)))
   \<and> EnableREALITY (fst (ParseAirGoNodeInfo sample_extern sample_client sample_node))
   \<and> REALITYConfig (fst (ParseAirGoNodeInfo sample_extern sample_client sample_node)) =
        Some \<lparr>REALITYConfig.Dest = ''www.example:443'', ProxyProtocolVer = 0,
              ServerNames = [''www.example''], REALITYConfig.PrivateKey = ''pk'',
              MinClientVer = [], MaxClientVer = [], MaxTimeDiff = 0,
              ShortIds = [[], ''0123456789abcdef'']\<rparr>
   \<and> EnableREALITY (fst (ParseAirGoNodeInfo sample_extern sample_client
        (sample_node\<lparr>Protocol := ''Vmess''\<rparr>)))
   \<and> REALITYConfig (fst (ParseAirGoNodeInfo sample_extern sample_client
        (sample_node\<lparr>Protocol := ''Shadowsocks''\<rparr>))) = None"
  using security_mode_outputs [of "sample_node\<lparr>Security := ''none''\<rparr>" sample_extern sample_client]
    security_mode_outputs [of sample_node sample_extern sample_client]
    security_mode_outputs [of "sample_node\<lparr>Protocol := ''Vmess''\<rparr>" sample_extern sample_client]
    security_mode_outputs [of "sample_node\<lparr>Protocol := ''Shadowsocks''\<rparr>" sample_extern sample_client]
  by (simp add: sample_node_def)

subsection \<open>Protocol dispatch\<close>

text \<open>
  C3, as stated, fails: the protocol \<^verbatim>\<open>VLESS\<close> is a capitalization of
  \<^verbatim>\<open>vless\<close>, and the sample node with that protocol is mapped to the zero-value
  configuration, with \<^verbatim>\<open>EnableVless\<close> false.
\<close>

theorem uppercase_protocol_zero_value:
  "ParseAirGoNodeInfo sample_extern sample_client (sample_node\<lparr>Protocol := ''VLESS''\<rparr>) =
     (zero_NodeInfo, None)
   \<and> \<not> NodeInfo.EnableVless (fst (ParseAirGoNodeInfo sample_extern sample_client
          (sample_node\<lparr>Protocol := ''VLESS''\<rparr>)))"
  by (simp add: ParseAirGoNodeInfo_def sample_node_def zero_NodeInfo_def)

text \<open>
  C3, amended. The protocol field is compared for equality with the six strings vless,
  Vless, vmess, Vmess, Shadowsocks, shadowsocks. For vless or Vless the output, its
  header apart, is the vless shape (\<^verbatim>\<open>EnableVless\<close> true, flow, transport, TLS and
  REALITY flags, path, host and service name from the descriptor, and the REALITY
  configuration built from the descriptor for security \<^verbatim>\<open>reality\<close>, the empty one
  otherwise) and is not the zero value. For vmess or Vmess the output has the vmess
  fields (\<^verbatim>\<open>EnableVless\<close> false, \<^verbatim>\<open>AlterID\<close> zero, cipher method, node type and
  id, port, speed limit, transport, TLS and REALITY flags, path, host and service name
  from the descriptor) and is not the zero value whenever one of the values it copies
  is not zero; nothing is said of its REALITY configuration. For Shadowsocks or
  shadowsocks the output, its header apart, is the shadowsocks shape (transport
  \<^verbatim>\<open>tcp\<close>, cipher method, server key) and is not the zero value. Every other
  protocol string, other capitalizations such as \<^verbatim>\<open>VLESS\<close> included, gives the
  zero-value configuration and a nil error.
\<close>

theorem protocol_dispatch:
  "(Protocol n \<in> {''vless'', ''Vless''} \<longrightarrow>
      (fst (ParseAirGoNodeInfo x c n))\<lparr>Header := None\<rparr> =
        \<lparr>NodeInfo.NodeType = APIClient.NodeType c,
         NodeInfo.NodeID = APIClient.NodeID c,
         NodeInfo.Port = ucast (NodeInfoResponse.Port n),
         NodeInfo.SpeedLimit =
           (if limit_pos x (NodeInfoResponse.NodeSpeedLimit n)
            then limit_bytes x (NodeInfoResponse.NodeSpeedLimit n)
            else float_bytes x (APIClient.SpeedLimit c)),
         AlterID = 0,
         TransportProtocol = Network n,
         NodeInfo.Host = NodeInfoResponse.Host n,
         NodeInfo.Path = NodeInfoResponse.Path n,
         EnableTLS = (Security n \<noteq> ''none'' \<and> Security n \<noteq> []),
         NodeInfo.EnableVless = True,
         NodeInfo.VlessFlow = NodeInfoResponse.VlessFlow n,
         CypherMethod = [],
         NodeInfo.ServerKey = [],
         NodeInfo.ServiceName = NodeInfoResponse.ServiceName n,
         Header = None,
         EnableREALITY = (Security n = ''reality''),
         REALITYConfig =
           Some (if Security n = ''reality'' then
                   \<lparr>REALITYConfig.Dest = NodeInfoResponse.Dest n,
                    ProxyProtocolVer = 0,
                    ServerNames = [Sni n],
                    REALITYConfig.PrivateKey = NodeInfoResponse.PrivateKey n,
                    MinClientVer = [],
                    MaxClientVer = [],
                    MaxTimeDiff = 0,
                    ShortIds = [[], ''0123456789abcdef'']\<rparr>
                 else zero_REALITYConfig)\<rparr>
      \<and> fst (ParseAirGoNodeInfo x c n) \<noteq> zero_NodeInfo)
   \<and> (Protocol n \<in> {''vmess'', ''Vmess''} \<longrightarrow>
      NodeInfo.EnableVless (fst (ParseAirGoNodeInfo x c n)) = False
      \<and> AlterID (fst (ParseAirGoNodeInfo x c n)) = 0
      \<and> CypherMethod (fst (ParseAirGoNodeInfo x c n)) = Scy n
      \<and> NodeInfo.NodeType (fst (ParseAirGoNodeInfo x c n)) = APIClient.NodeType c
      \<and> NodeInfo.NodeID (fst (ParseAirGoNodeInfo x c n)) = APIClient.NodeID c
      \<and> NodeInfo.Port (fst (ParseAirGoNodeInfo x c n)) = ucast (NodeInfoResponse.Port n)
      \<and> NodeInfo.SpeedLimit (fst (ParseAirGoNodeInfo x c n)) =
           (if limit_pos x (NodeInfoResponse.NodeSpeedLimit n)
            then limit_bytes x (NodeInfoResponse.NodeSpeedLimit n)
            else float_bytes x (APIClient.SpeedLimit c))
      \<and> TransportProtocol (fst (ParseAirGoNodeInfo x c n)) = Network n
      \<and> EnableTLS (fst (ParseAirGoNodeInfo x c n)) =
           (Security n \<noteq> ''none'' \<and> Security n \<noteq> [])
      \<and> NodeInfo.Path (fst (ParseAirGoNodeInfo x c n)) = NodeInfoResponse.Path n
      \<and> NodeInfo.Host (fst (ParseAirGoNodeInfo x c n)) = NodeInfoResponse.Host n
      \<and> NodeInfo.ServiceName (fst (ParseAirGoNodeInfo x c n)) =
           NodeInfoResponse.ServiceName n
      \<and> EnableREALITY (fst (ParseAirGoNodeInfo x c n)) = (Security n = ''reality'')
      \<and> NodeInfo.VlessFlow (fst (ParseAirGoNodeInfo x c n)) = []
      \<and> NodeInfo.ServerKey (fst (ParseAirGoNodeInfo x c n)) = []
      \<and> (APIClient.NodeType c \<noteq> [] \<or> APIClient.NodeID c \<noteq> 0
          \<or> (ucast (NodeInfoResponse.Port n) :: 32 word) \<noteq> 0
          \<or> (if limit_pos x (NodeInfoResponse.NodeSpeedLimit n)
              then limit_bytes x (NodeInfoResponse.NodeSpeedLimit n)
              else float_bytes x (APIClient.SpeedLimit c)) \<noteq> 0
          \<or> Network n \<noteq> [] \<or> (Security n \<noteq> ''none'' \<and> Security n \<noteq> [])
          \<or> NodeInfoResponse.Path n \<noteq> [] \<or> NodeInfoResponse.Host n \<noteq> []
          \<or> Scy n \<noteq> [] \<or> NodeInfoResponse.ServiceName n \<noteq> []
          \<longrightarrow> fst (ParseAirGoNodeInfo x c n) \<noteq> zero_NodeInfo))
   \<and> (Protocol n \<in> {''Shadowsocks'', ''shadowsocks''} \<longrightarrow>
      (fst (ParseAirGoNodeInfo x c n))\<lparr>Header := None\<rparr> =
        \<lparr>NodeInfo.NodeType = APIClient.NodeType c,
         NodeInfo.NodeID = APIClient.NodeID c,
         NodeInfo.Port = ucast (NodeInfoResponse.Port n),
         NodeInfo.SpeedLimit =
           (if limit_pos x (NodeInfoResponse.NodeSpeedLimit n)
            then limit_bytes x (NodeInfoResponse.NodeSpeedLimit n)
            else float_bytes x (APIClient.SpeedLimit c)),
         AlterID = 0,
         TransportProtocol = ''tcp'',
         NodeInfo.Host = [],
         NodeInfo.Path = [],
         EnableTLS = False,
         NodeInfo.EnableVless = False,
         NodeInfo.VlessFlow = [],
         CypherMethod = Scy n,
         NodeInfo.ServerKey = NodeInfoResponse.ServerKey n,
         NodeInfo.ServiceName = [],
         Header = None,
         EnableREALITY = False,
         REALITYConfig = None\<rparr>
      \<and> fst (ParseAirGoNodeInfo x c n) \<noteq> zero_NodeInfo)
   \<and> (Protocol n \<notin> {''vless'', ''Vless'', ''vmess'', ''Vmess'', ''Shadowsocks'', ''shadowsocks''} \<longrightarrow>
      ParseAirGoNodeInfo x c n = (zero_NodeInfo, None))
   \<and> snd (ParseAirGoNodeInfo x c n) = None"
proof -
  have vless: "Protocol n \<in> {''vless'', ''Vless''} \<longrightarrow>
        (fst (ParseAirGoNodeInfo x c n))\<lparr>Header := None\<rparr> =
          \<lparr>NodeInfo.NodeType = APIClient.NodeType c,
           NodeInfo.NodeID = APIClient.NodeID c,
           NodeInfo.Port = ucast (NodeInfoResponse.Port n),
           NodeInfo.SpeedLimit =
             (if limit_pos x (NodeInfoResponse.NodeSpeedLimit n)
              then limit_bytes x (NodeInfoResponse.NodeSpeedLimit n)
              else float_bytes x (APIClient.SpeedLimit c)),
           AlterID = 0,
           TransportProtocol = Network n,
           NodeInfo.Host = NodeInfoResponse.Host n,
           NodeInfo.Path = NodeInfoResponse.Path n,
           EnableTLS = (Security n \<noteq> ''none'' \<and> Security n \<noteq> []),
           NodeInfo.EnableVless = True,
           NodeInfo.VlessFlow = NodeInfoResponse.VlessFlow n,
           CypherMethod = [],
           NodeInfo.ServerKey = [],
           NodeInfo.ServiceName = NodeInfoResponse.ServiceName n,
           Header = None,
           EnableREALITY = (Security n = ''reality''),
           REALITYConfig =
             Some (if Security n = ''reality'' then
                     \<lparr>REALITYConfig.Dest = NodeInfoResponse.Dest n,
                      ProxyProtocolVer = 0,
                      ServerNames = [Sni n],
                      REALITYConfig.PrivateKey = NodeInfoResponse.PrivateKey n,
                      MinClientVer = [],
                      MaxClientVer = [],
                      MaxTimeDiff = 0,
                      ShortIds = [[], ''0123456789abcdef'']\<rparr>
                   else zero_REALITYConfig)\<rparr>
        \<and> fst (ParseAirGoNodeInfo x c n) \<noteq> zero_NodeInfo"
    by (auto simp: parse_defs)
  have vmess: "Protocol n \<in> {''vmess'', ''Vmess''} \<longrightarrow>
        NodeInfo.EnableVless (fst (ParseAirGoNodeInfo x c n)) = False
        \<and> AlterID (fst (ParseAirGoNodeInfo x c n)) = 0
        \<and> CypherMethod (fst (ParseAirGoNodeInfo x c n)) = Scy n
        \<and> NodeInfo.NodeType (fst (ParseAirGoNodeInfo x c n)) = APIClient.NodeType c
        \<and> NodeInfo.NodeID (fst (ParseAirGoNodeInfo x c n)) = APIClient.NodeID c
        \<and> NodeInfo.Port (fst (ParseAirGoNodeInfo x c n)) = ucast (NodeInfoResponse.Port n)
        \<and> NodeInfo.SpeedLimit (fst (ParseAirGoNodeInfo x c n)) =
             (if limit_pos x (NodeInfoResponse.NodeSpeedLimit n)
              then limit_bytes x (NodeInfoResponse.NodeSpeedLimit n)
              else float_bytes x (APIClient.SpeedLimit c))
        \<and> TransportProtocol (fst (ParseAirGoNodeInfo x c n)) = Network n
        \<and> EnableTLS (fst (ParseAirGoNodeInfo x c n)) =
             (Security n \<noteq> ''none'' \<and> Security n \<noteq> [])
        \<and> NodeInfo.Path (fst (ParseAirGoNodeInfo x c n)) = NodeInfoResponse.Path n
        \<and> NodeInfo.Host (fst (ParseAirGoNodeInfo x c n)) = NodeInfoResponse.Host n
        \<and> NodeInfo.ServiceName (fst (ParseAirGoNodeInfo x c n)) =
             NodeInfoResponse.ServiceName n
        \<and> EnableREALITY (fst (ParseAirGoNodeInfo x c n)) = (Security n = ''reality'')
        \<and> NodeInfo.VlessFlow (fst (ParseAirGoNodeInfo x c n)) = []
        \<and> NodeInfo.ServerKey (fst (ParseAirGoNodeInfo x c n)) = []
        \<and> (APIClient.NodeType c \<noteq> [] \<or> APIClient.NodeID c \<noteq> 0
            \<or> (ucast (NodeInfoResponse.Port n) :: 32 word) \<noteq> 0
            \<or> (if limit_pos x (NodeInfoResponse.NodeSpeedLimit n)
                then limit_bytes x (NodeInfoResponse.NodeSpeedLimit n)
                else float_bytes x (APIClient.SpeedLimit c)) \<noteq> 0
            \<or> Network n \<noteq> [] \<or> (Security n \<noteq> ''none'' \<and> Security n \<noteq> [])
            \<or> NodeInfoResponse.Path n \<noteq> [] \<or> NodeInfoResponse.Host n \<noteq> []
            \<or> Scy n \<noteq> [] \<or> NodeInfoResponse.ServiceName n \<noteq> []
            \<longrightarrow> fst (ParseAirGoNodeInfo x c n) \<noteq> zero_NodeInfo)"
    by (auto simp: parse_defs)
  have ss: "Protocol n \<in> {''Shadowsocks'', ''shadowsocks''} \<longrightarrow>
        (fst (ParseAirGoNodeInfo x c n))\<lparr>Header := None\<rparr> =
          \<lparr>NodeInfo.NodeType = APIClient.NodeType c,
           NodeInfo.NodeID = APIClient.NodeID c,
           NodeInfo.Port = ucast (NodeInfoResponse.Port n),
           NodeInfo.SpeedLimit =
             (if limit_pos x (NodeInfoResponse.NodeSpeedLimit n)
              then limit_bytes x (NodeInfoResponse.NodeSpeedLimit n)
              else float_bytes x (APIClient.SpeedLimit c)),
           AlterID = 0,
           TransportProtocol = ''tcp'',
           NodeInfo.Host = [],
           NodeInfo.Path = [],
           EnableTLS = False,
           NodeInfo.EnableVless = False,
           NodeInfo.VlessFlow = [],
           CypherMethod = Scy n,
           NodeInfo.ServerKey = NodeInfoResponse.ServerKey n,
           NodeInfo.ServiceName = [],
           Header = None,
           EnableREALITY = False,
           REALITYConfig = None\<rparr>
        \<and> fst (ParseAirGoNodeInfo x c n) \<noteq> zero_NodeInfo"
    by (auto simp: parse_defs)
  have other: "Protocol n \<notin> {''vless'', ''Vless'', ''vmess'', ''Vmess'', ''Shadowsocks'', ''shadowsocks''} \<longrightarrow>
        ParseAirGoNodeInfo x c n = (zero_NodeInfo, None)"
    by (simp add: ParseAirGoNodeInfo_def)
  have err: "snd (ParseAirGoNodeInfo x c n) = None"
    by (simp add: ParseAirGoNodeInfo_def Let_def)
  from vless vmess ss other err show ?thesis
    by (intro conjI)
qed

theorem protocol_dispatch_witness:
  "NodeInfo.EnableVless (fst (ParseAirGoNodeInfo sample_extern sample_client sample_node))
   \<and> NodeInfo.VlessFlow (fst (ParseAirGoNodeInfo sample_extern sample_client sample_node))
       = ''xtls-rprx-vision''
   \<and> CypherMethod (fst (ParseAirGoNodeInfo sample_extern sample_client
        (sample_node\<lparr>Protocol := ''Vmess''\<rparr>))) = ''auto''
   \<and> fst (ParseAirGoNodeInfo sample_extern sample_client
        (sample_node\<lparr>Protocol := ''Vmess''\<rparr>)) \<noteq> zero_NodeInfo
   \<and> NodeInfo.ServerKey (fst (ParseAirGoNodeInfo sample_extern sample_client
        (sample_node\<lparr>Protocol := ''shadowsocks''\<rparr>))) = ''k''
   \<and> ParseAirGoNodeInfo sample_extern sample_client (sample_node\<lparr>Protocol := ''trojan''\<rparr>)
       = (zero_NodeInfo, None)"
proof -
  let ?P = "ParseAirGoNodeInfo sample_extern sample_client"
  let ?vm = "sample_node\<lparr>Protocol := ''Vmess''\<rparr>"
  have p: "Protocol sample_node \<in> {''vless'', ''Vless''}"
    "Protocol ?vm \<in> {''vmess'', ''Vmess''}"
    "Protocol (sample_node\<lparr>Protocol := ''shadowsocks''\<rparr>) \<in> {''Shadowsocks'', ''shadowsocks''}"
    "Protocol (sample_node\<lparr>Protocol := ''trojan''\<rparr>)
       \<notin> {''vless'', ''Vless'', ''vmess'', ''Vmess'', ''Shadowsocks'', ''shadowsocks''}"
    by (simp_all add: sample_node_def)
  have q: "Scy ?vm = ''auto''" "Network ?vm \<noteq> []"
    by (simp_all add: sample_node_def)
  have "NodeInfo.EnableVless ((fst (?P sample_node))\<lparr>Header := None\<rparr>)
        \<and> NodeInfo.VlessFlow ((fst (?P sample_node))\<lparr>Header := None\<rparr>) = ''xtls-rprx-vision''"
    using protocol_dispatch [of sample_node sample_extern sample_client] p(1)
    by (simp add: sample_node_def)
  moreover
  note vm = protocol_dispatch [of ?vm sample_extern sample_client,
      THEN conjunct2, THEN conjunct1, THEN mp, OF p(2)]
  have "CypherMethod (fst (?P ?vm)) = ''auto''"
    using vm q(1) by simp
  moreover have "fst (?P ?vm) \<noteq> zero_NodeInfo"
    using vm q(2) by blast
  moreover have "NodeInfo.ServerKey ((fst (?P (sample_node\<lparr>Protocol := ''shadowsocks''\<rparr>)))\<lparr>Header := None\<rparr>) = ''k''"
    using protocol_dispatch [of "sample_node\<lparr>Protocol := ''shadowsocks''\<rparr>" sample_extern sample_client] p(3)
    by (simp add: sample_node_def)
  moreover have "?P (sample_node\<lparr>Protocol := ''trojan''\<rparr>) = (zero_NodeInfo, None)"
    using protocol_dispatch [of "sample_node\<lparr>Protocol := ''trojan''\<rparr>" sample_extern sample_client] p(4)
    by blast
  ultimately show ?thesis by simp
qed

subsection \<open>Camouflage header\<close>

text \<open>
  C4. The header of the output is set exactly when the output transport is \<^verbatim>\<open>tcp\<close>
  and the camouflage type is \<^verbatim>\<open>http\<close>, and then it is what \<^verbatim>\<open>json.Marshal\<close>
  returns for the value \<open>{type: http, request: {path: [Path], headers: {Host: [Host]}}}\<close>
  (\<^verbatim>\<open>json.Marshal\<close> does not fail on a value of strings, string slices and maps; a
  failure would leave the header unset). For vless and vmess the test is on the
  descriptor's network, so that \<^verbatim>\<open>grpc\<close> and \<^verbatim>\<open>ws\<close> never give a header; for
  shadowsocks the camouflage type alone decides.
\<close>

theorem camouflage_header_presence:
  "Header (fst (ParseAirGoNodeInfo x c n)) =
     (if TransportProtocol (fst (ParseAirGoNodeInfo x c n)) = ''tcp'' \<and> Type n = ''http''
      then marshal_bytes x (camouflage n) else None)
   \<and> (Marshal x (camouflage n) = Inr b \<longrightarrow>
        (Header (fst (ParseAirGoNodeInfo x c n)) \<noteq> None) =
          (TransportProtocol (fst (ParseAirGoNodeInfo x c n)) = ''tcp'' \<and> Type n = ''http'')
        \<and> (Header (fst (ParseAirGoNodeInfo x c n)) \<noteq> None \<longrightarrow>
             Header (fst (ParseAirGoNodeInfo x c n)) = Some b))
   \<and> (Protocol n \<in> {''vless'', ''Vless'', ''vmess'', ''Vmess''} \<longrightarrow>
        Header (fst (ParseAirGoNodeInfo x c n)) =
          (if Network n = ''tcp'' \<and> Type n = ''http''
           then marshal_bytes x (camouflage n) else None))
   \<and> (Protocol n \<in> {''vless'', ''Vless'', ''vmess'', ''Vmess''}
        \<and> Network n \<in> {''grpc'', ''ws''} \<longrightarrow>
        Header (fst (ParseAirGoNodeInfo x c n)) = None)
   \<and> (Protocol n \<in> {''Shadowsocks'', ''shadowsocks''} \<longrightarrow>
        Header (fst (ParseAirGoNodeInfo x c n)) =
          (if Type n = ''http'' then marshal_bytes x (camouflage n) else None))
   \<and> camouflage n =
       JObject
         [(''type'', JString ''http''),
          (''request'',
             JObject
               [(''path'', JArray [JString (NodeInfoResponse.Path n)]),
                (''headers'',
                   JObject [(''Host'', JArray [JString (NodeInfoResponse.Host n)])])])]"
proof -
  have m: "Marshal x (camouflage n) = Inr b \<Longrightarrow> marshal_bytes x (camouflage n) = Some b"
    by (simp add: marshal_bytes_def)
  have h: "camouflage n =
       JObject
         [(''type'', JString ''http''),
          (''request'',
             JObject
               [(''path'', JArray [JString (NodeInfoResponse.Path n)]),
                (''headers'',
                   JObject [(''Host'', JArray [JString (NodeInfoResponse.Host n)])])])]"
    by (simp add: camouflage_def)
  show ?thesis
    unfolding parse_Header parse_TransportProtocol
    by (intro conjI; (rule h | auto simp: m))
qed

theorem camouflage_header_presence_witness:
  "Header (fst (ParseAirGoNodeInfo sample_extern sample_client sample_node)) = Some sample_blob
   \<and> Header (fst (ParseAirGoNodeInfo sample_extern sample_client
        (sample_node\<lparr>Network := ''ws''\<rparr>))) = None
   \<and> Header (fst (ParseAirGoNodeInfo sample_extern sample_client
        (sample_node\<lparr>Protocol := ''shadowsocks'', Network := ''ws''\<rparr>))) = Some sample_blob"
proof -
  let ?ws = "sample_node\<lparr>Network := ''ws''\<rparr>"
  let ?ss = "sample_node\<lparr>Protocol := ''shadowsocks'', Network := ''ws''\<rparr>"
  have m: "marshal_bytes sample_extern (camouflage sample_node) = Some sample_blob"
    "marshal_bytes sample_extern (camouflage ?ss) = Some sample_blob"
    by (simp_all add: marshal_bytes_def sample_extern_def camouflage_def)
  have v1: "Protocol sample_node \<in> {''vless'', ''Vless'', ''vmess'', ''Vmess''}"
    and v2: "Network sample_node = ''tcp''" "Type sample_node = ''http''"
    and v3: "Protocol ?ws \<in> {''vless'', ''Vless'', ''vmess'', ''Vmess''}
             \<and> Network ?ws \<in> {''grpc'', ''ws''}"
    and v4: "Protocol ?ss \<in> {''Shadowsocks'', ''shadowsocks''}"
    and v5: "Type ?ss = ''http''"
    by (simp_all add: sample_node_def)
  note a = camouflage_header_presence [of sample_extern sample_client sample_node sample_blob]
  note b = camouflage_header_presence [of sample_extern sample_client ?ws sample_blob]
  note c = camouflage_header_presence [of sample_extern sample_client ?ss sample_blob]
  have "Header (fst (ParseAirGoNodeInfo sample_extern sample_client sample_node)) = Some sample_blob"
    using a [THEN conjunct2, THEN conjunct2, THEN conjunct1, THEN mp, OF v1]
    by (simp only: v2 m simp_thms if_True)
  moreover
  have "Header (fst (ParseAirGoNodeInfo sample_extern sample_client ?ws)) = None"
    by (rule b [THEN conjunct2, THEN conjunct2, THEN conjunct2, THEN conjunct1, THEN mp, OF v3])
  moreover
  have "Header (fst (ParseAirGoNodeInfo sample_extern sample_client ?ss)) = Some sample_blob"
    using c [THEN conjunct2, THEN conjunct2, THEN conjunct2, THEN conjunct2, THEN conjunct1,
        THEN mp, OF v4]
    by (simp only: v5 m simp_thms if_True)
  ultimately show ?thesis by (intro conjI)
qed

subsection \<open>Shadowsocks\<close>

text \<open>
  C5. For protocol shadowsocks or Shadowsocks the output has transport \<^verbatim>\<open>tcp\<close>
  whatever the descriptor's network, the descriptor's cipher method and server key, and
  \<^verbatim>\<open>EnableTLS\<close> false, \<^verbatim>\<open>EnableREALITY\<close> false and no REALITY configuration
  whatever the security mode.
\<close>

theorem shadowsocks_shape:
  assumes "Protocol n = ''shadowsocks'' \<or> Protocol n = ''Shadowsocks''"
  shows "TransportProtocol (fst (ParseAirGoNodeInfo x c n)) = ''tcp''
    \<and> CypherMethod (fst (ParseAirGoNodeInfo x c n)) = Scy n
    \<and> NodeInfo.ServerKey (fst (ParseAirGoNodeInfo x c n)) = NodeInfoResponse.ServerKey n
    \<and> \<not> EnableTLS (fst (ParseAirGoNodeInfo x c n))
    \<and> \<not> EnableREALITY (fst (ParseAirGoNodeInfo x c n))
    \<and> REALITYConfig (fst (ParseAirGoNodeInfo x c n)) = None"
  using assms by (auto simp: parse_defs)

theorem shadowsocks_shape_witness:
  "TransportProtocol (fst (ParseAirGoNodeInfo sample_extern sample_client
      (sample_node\<lparr>Protocol := ''shadowsocks'', Network := ''ws''\<rparr>))) = ''tcp''
   \<and> CypherMethod (fst (ParseAirGoNodeInfo sample_extern sample_client
      (sample_node\<lparr>Protocol := ''shadowsocks'', Network := ''ws''\<rparr>))) = ''auto''
   \<and> NodeInfo.ServerKey (fst (ParseAirGoNodeInfo sample_extern sample_client
      (sample_node\<lparr>Protocol := ''shadowsocks'', Network := ''ws''\<rparr>))) = ''k''
   \<and> \<not> EnableTLS (fst (ParseAirGoNodeInfo sample_extern sample_client
      (sample_node\<lparr>Protocol := ''shadowsocks'', Network := ''ws''\<rparr>)))
   \<and> \<not> EnableREALITY (fst (ParseAirGoNodeInfo sample_extern sample_client
      (sample_node\<lparr>Protocol := ''shadowsocks'', Network := ''ws''\<rparr>)))
   \<and> REALITYConfig (fst (ParseAirGoNodeInfo sample_extern sample_client
      (sample_node\<lparr>Protocol := ''shadowsocks'', Network := ''ws''\<rparr>))) = None"
proof -
  have "Protocol (sample_node\<lparr>Protocol := ''shadowsocks'', Network := ''ws''\<rparr>) = ''shadowsocks''
        \<or> Protocol (sample_node\<lparr>Protocol := ''shadowsocks'', Network := ''ws''\<rparr>) = ''Shadowsocks''"
    by simp
  from shadowsocks_shape [OF this, of sample_extern sample_client]
  show ?thesis by (simp add: sample_node_def)
qed

subsection \<open>Validator tokens\<close>

lemma updateETag_noop:
  "lookup (ResHeader res) ''Etag'' = [] \<or> lookup (ResHeader res) ''Etag'' = lookup (eTags c) key
   \<Longrightarrow> updateETag c res key = c"
  by (auto simp: updateETag_def)

lemma updateETag_store:
  "lookup (ResHeader res) ''Etag'' \<noteq> [] \<Longrightarrow>
   lookup (ResHeader res) ''Etag'' \<noteq> lookup (eTags c) key \<Longrightarrow>
   updateETag c res key = c\<lparr>eTags := (eTags c)(key \<mapsto> lookup (ResHeader res) ''Etag'')\<rparr>"
  by (simp add: updateETag_def)

lemma updateETag_cases:
  "updateETag c res key = c
   \<or> (\<exists>t. t \<noteq> [] \<and> t \<noteq> lookup (eTags c) key
          \<and> updateETag c res key = c\<lparr>eTags := (eTags c)(key \<mapsto> t)\<rparr>)"
  by (auto simp: updateETag_def Let_def)

lemma updateETag_SpeedLimit:
  "APIClient.SpeedLimit (updateETag c res key) = APIClient.SpeedLimit c"
  by (simp add: updateETag_def Let_def)

lemma GetNodeInfo_304:
  assumes "StatusCode (fst (Get x (node_request c))) = 304"
  shows "GetNodeInfo x c = (Inl NodeNotModified, c)"
  using assms by (cases "Get x (node_request c)") (simp add: GetNodeInfo_def)

lemma GetNodeInfo_client:
  "snd (GetNodeInfo x c) = c
   \<or> snd (GetNodeInfo x c) = updateETag c (fst (Get x (node_request c))) ''node''"
  by (cases "Get x (node_request c)")
     (auto simp: GetNodeInfo_def Let_def split: sum.splits prod.splits option.splits)

lemma GetUserList_304:
  assumes "StatusCode (fst (Get x (userlist_request c))) = 304"
  shows "snd (GetUserList x c) = c"
    and "snd (Get x (userlist_request c)) = None \<Longrightarrow> fst (GetUserList x c) = Inl UserNotModified"
  using assms
  by (cases "Get x (userlist_request c)"; simp add: GetUserList_def split: option.splits)+

lemma GetUserList_client:
  "snd (GetUserList x c) = c
   \<or> snd (GetUserList x c) = updateETag c (fst (Get x (userlist_request c))) ''userlist''"
  by (cases "Get x (userlist_request c)")
     (auto simp: GetUserList_def Let_def split: sum.splits prod.splits option.splits)

text \<open>
  C7. \<^verbatim>\<open>updateETag\<close> leaves the client as it is when the response's token is empty
  or is the stored one, and otherwise stores that token (non-empty, different from the
  stored one) under the key and changes nothing else. A fetch whose response has status
  304 returns the not-modified sentinel and the client unchanged (\<^verbatim>\<open>GetUserList\<close>
  looks at the transport error first; \<^verbatim>\<open>GetNodeInfo\<close> does not look at it). Whatever
  the response, a fetch leaves the client unchanged or stores a non-empty token that
  differs from the stored one under its own key.
\<close>

theorem validator_tokens:
  "(lookup (ResHeader res) ''Etag'' = [] \<or> lookup (ResHeader res) ''Etag'' = lookup (eTags c) key
      \<longrightarrow> updateETag c res key = c)
   \<and> (lookup (ResHeader res) ''Etag'' \<noteq> []
       \<and> lookup (ResHeader res) ''Etag'' \<noteq> lookup (eTags c) key
      \<longrightarrow> updateETag c res key =
            c\<lparr>eTags := (eTags c)(key \<mapsto> lookup (ResHeader res) ''Etag'')\<rparr>)
   \<and> (StatusCode (fst (Get x (node_request c))) = 304
      \<longrightarrow> GetNodeInfo x c = (Inl NodeNotModified, c))
   \<and> (StatusCode (fst (Get x (userlist_request c))) = 304
      \<longrightarrow> snd (GetUserList x c) = c
          \<and> (snd (Get x (userlist_request c)) = None
               \<longrightarrow> fst (GetUserList x c) = Inl UserNotModified))
   \<and> (snd (GetNodeInfo x c) = c
       \<or> (\<exists>t. t \<noteq> [] \<and> t \<noteq> lookup (eTags c) ''node''
              \<and> snd (GetNodeInfo x c) = c\<lparr>eTags := (eTags c)(''node'' \<mapsto> t)\<rparr>))
   \<and> (snd (GetUserList x c) = c
       \<or> (\<exists>t. t \<noteq> [] \<and> t \<noteq> lookup (eTags c) ''userlist''
              \<and> snd (GetUserList x c) = c\<lparr>eTags := (eTags c)(''userlist'' \<mapsto> t)\<rparr>))"
proof (intro conjI)
  show "lookup (ResHeader res) ''Etag'' = [] \<or> lookup (ResHeader res) ''Etag'' = lookup (eTags c) key
      \<longrightarrow> updateETag c res key = c"
    by (rule impI) (rule updateETag_noop)
  show "lookup (ResHeader res) ''Etag'' \<noteq> []
       \<and> lookup (ResHeader res) ''Etag'' \<noteq> lookup (eTags c) key
      \<longrightarrow> updateETag c res key =
            c\<lparr>eTags := (eTags c)(key \<mapsto> lookup (ResHeader res) ''Etag'')\<rparr>"
    by (simp add: updateETag_store)
  show "StatusCode (fst (Get x (node_request c))) = 304
      \<longrightarrow> GetNodeInfo x c = (Inl NodeNotModified, c)"
    by (rule impI) (rule GetNodeInfo_304)
  show "StatusCode (fst (Get x (userlist_request c))) = 304
      \<longrightarrow> snd (GetUserList x c) = c
          \<and> (snd (Get x (userlist_request c)) = None
               \<longrightarrow> fst (GetUserList x c) = Inl UserNotModified)"
    by (simp add: GetUserList_304)
  show "snd (GetNodeInfo x c) = c
       \<or> (\<exists>t. t \<noteq> [] \<and> t \<noteq> lookup (eTags c) ''node''
              \<and> snd (GetNodeInfo x c) = c\<lparr>eTags := (eTags c)(''node'' \<mapsto> t)\<rparr>)"
    using GetNodeInfo_client [of x c]
      updateETag_cases [of c "fst (Get x (node_request c))" "''node''"]
    by metis
  show "snd (GetUserList x c) = c
       \<or> (\<exists>t. t \<noteq> [] \<and> t \<noteq> lookup (eTags c) ''userlist''
              \<and> snd (GetUserList x c) = c\<lparr>eTags := (eTags c)(''userlist'' \<mapsto> t)\<rparr>)"
    using GetUserList_client [of x c]
      updateETag_cases [of c "fst (Get x (userlist_request c))" "''userlist''"]
    by metis
qed

lemma sample_Get_cached:
  "Get sample_extern (node_request sample_cached) =
     (\<lparr>StatusCode = 304, Status = ''304 Not Modified'', ResHeader = Map.empty, Body = []\<rparr>, None)"
  "Get sample_extern (userlist_request sample_cached) =
     (\<lparr>StatusCode = 304, Status = ''304 Not Modified'', ResHeader = Map.empty, Body = []\<rparr>, None)"
  by (simp_all add: sample_extern_def node_request_def userlist_request_def sample_cached_def
        lookup_def)

lemma sample_Get_fresh:
  "Get sample_extern (userlist_request sample_client) =
     (\<lparr>StatusCode = 200, Status = ''200 OK'', ResHeader = [''Etag'' \<mapsto> ''v2''],
       Body = ''users-json''\<rparr>, None)"
  by (simp add: sample_extern_def userlist_request_def sample_client_def lookup_def)

theorem validator_tokens_witness:
  "GetNodeInfo sample_extern sample_cached = (Inl NodeNotModified, sample_cached)
   \<and> GetUserList sample_extern sample_cached = (Inl UserNotModified, sample_cached)
   \<and> updateETag sample_cached
        \<lparr>StatusCode = 200, Status = ''200 OK'', ResHeader = [''Etag'' \<mapsto> ''v2''],
         Body = ''users-json''\<rparr> ''userlist'' = sample_cached
   \<and> updateETag sample_client
        \<lparr>StatusCode = 200, Status = ''200 OK'', ResHeader = [''Etag'' \<mapsto> ''v2''],
         Body = ''users-json''\<rparr> ''userlist'' =
       sample_client\<lparr>eTags := [''userlist'' \<mapsto> ''v2'']\<rparr>"
proof -
  let ?res = "\<lparr>StatusCode = 200, Status = ''200 OK'', ResHeader = [''Etag'' \<mapsto> ''v2''],
         Body = ''users-json''\<rparr>"
  note a = validator_tokens [of ?res sample_cached "''userlist''" sample_extern]
  note b = validator_tokens [of ?res sample_client "''userlist''" sample_extern]
  have h1: "StatusCode (fst (Get sample_extern (node_request sample_cached))) = 304"
    and h2: "StatusCode (fst (Get sample_extern (userlist_request sample_cached))) = 304"
    and h3: "snd (Get sample_extern (userlist_request sample_cached)) = None"
    by (simp_all add: sample_Get_cached)
  have h4: "lookup (ResHeader ?res) ''Etag'' = []
            \<or> lookup (ResHeader ?res) ''Etag'' = lookup (eTags sample_cached) ''userlist''"
    by (simp add: lookup_def sample_cached_def)
  have h5: "lookup (ResHeader ?res) ''Etag'' \<noteq> []
            \<and> lookup (ResHeader ?res) ''Etag'' \<noteq> lookup (eTags sample_client) ''userlist''"
    by (simp add: lookup_def sample_client_def)
  have "GetNodeInfo sample_extern sample_cached = (Inl NodeNotModified, sample_cached)"
    by (rule a [THEN conjunct2, THEN conjunct2, THEN conjunct1, THEN mp, OF h1])
  moreover
  have "snd (GetUserList sample_extern sample_cached) = sample_cached
        \<and> (snd (Get sample_extern (userlist_request sample_cached)) = None
             \<longrightarrow> fst (GetUserList sample_extern sample_cached) = Inl UserNotModified)"
    by (rule a [THEN conjunct2, THEN conjunct2, THEN conjunct2, THEN conjunct1, THEN mp, OF h2])
  with h3 have "GetUserList sample_extern sample_cached = (Inl UserNotModified, sample_cached)"
    by (simp add: prod_eq_iff)
  moreover
  have "updateETag sample_cached ?res ''userlist'' = sample_cached"
    by (rule a [THEN conjunct1, THEN mp, OF h4])
  moreover
  have "updateETag sample_client ?res ''userlist'' =
          sample_client\<lparr>eTags := (eTags sample_client)(''userlist'' \<mapsto> lookup (ResHeader ?res) ''Etag'')\<rparr>"
    by (rule b [THEN conjunct2, THEN conjunct1, THEN mp, OF h5])
  then have "updateETag sample_client ?res ''userlist'' =
          sample_client\<lparr>eTags := [''userlist'' \<mapsto> ''v2'']\<rparr>"
    by (simp add: lookup_def sample_client_def)
  ultimately show ?thesis by (intro conjI)
qed

subsection \<open>User list\<close>

lemma fill_userInfo_map:
  "length userInfo = i + length vs \<Longrightarrow>
   fill_userInfo x c i vs userInfo =
     take i userInfo @ map (user_record_spec x (APIClient.SpeedLimit c)) vs"
proof (induction vs arbitrary: i userInfo)
  case Nil
  then show ?case by simp
next
  case (Cons v vs)
  let ?u = "user_record_spec x (APIClient.SpeedLimit c) v"
  have "fill_userInfo x c i (v # vs) userInfo =
          fill_userInfo x c (Suc i) vs (userInfo[i := ?u])"
    by (simp add: user_record_spec_def calculateSpeedLimit_def)
  also have "\<dots> = take (Suc i) (userInfo[i := ?u])
                    @ map (user_record_spec x (APIClient.SpeedLimit c)) vs"
    using Cons.prems by (intro Cons.IH) simp
  also have "take (Suc i) (userInfo[i := ?u]) = take i userInfo @ [?u]"
    using Cons.prems by (simp add: take_Suc_conv_app_nth)
  finally show ?case by simp
qed

lemma GetUserList_decoded:
  assumes "Get x (userlist_request c) = (res, None)"
    and "StatusCode res \<noteq> 304"
    and "Unmarshal_users x (Body res) = Inr userResponse"
  shows "fst (GetUserList x c) =
           Inr (map (user_record_spec x (APIClient.SpeedLimit c)) userResponse)"
  using assms
  by (simp add: GetUserList_def Let_def fill_userInfo_map updateETag_SpeedLimit)

text \<open>
  C8. When the user list is fetched and decoded, the result is the list of the
  normalized records of the descriptors, in their order: it has the length of the
  decoded list, and its \<open>i\<close>-th record has the id, UUID, user name (as \<^verbatim>\<open>Email\<close>),
  password and connection limit (as \<^verbatim>\<open>DeviceLimit\<close>) of the \<open>i\<close>-th descriptor, and
  the speed limit of \<^verbatim>\<open>calculateSpeedLimit\<close>: from the user's own limit when that is
  positive, from the session default otherwise, the rule of the node mapping. The result
  depends on nothing but the descriptors, the session default and the arithmetic.
\<close>

theorem GetUserList_map:
  assumes "Get x (userlist_request c) = (res, None)"
    and "StatusCode res \<noteq> 304"
    and "Unmarshal_users x (Body res) = Inr userResponse"
  shows "\<exists>userInfo.
           fst (GetUserList x c) = Inr userInfo
           \<and> userInfo = map (user_record_spec x (APIClient.SpeedLimit c)) userResponse
           \<and> length userInfo = length userResponse
           \<and> (\<forall>i < length userResponse.
                userInfo ! i =
                  \<lparr>UserInfo.UID = UserResponse.ID (userResponse ! i),
                   Email = UserName (userResponse ! i),
                   UserInfo.UUID = UserResponse.UUID (userResponse ! i),
                   UserInfo.Passwd = UserResponse.Passwd (userResponse ! i),
                   UserInfo.SpeedLimit =
                     (if 0 <s UserResponse.NodeSpeedLimit (userResponse ! i)
                      then float_bytes x
                             (float_of_int64 x (UserResponse.NodeSpeedLimit (userResponse ! i)))
                      else float_bytes x (APIClient.SpeedLimit c)),
                   UserInfo.DeviceLimit = NodeConnector (userResponse ! i)\<rparr>
                \<and> UserInfo.SpeedLimit (userInfo ! i) =
                    calculateSpeedLimit x (UserResponse.NodeSpeedLimit (userResponse ! i))
                      (APIClient.SpeedLimit c))"
proof -
  let ?us = "map (user_record_spec x (APIClient.SpeedLimit c)) userResponse"
  have "fst (GetUserList x c) = Inr ?us"
    using assms by (rule GetUserList_decoded)
  moreover have "length ?us = length userResponse"
    by simp
  moreover have "\<forall>i < length userResponse.
                ?us ! i =
                  \<lparr>UserInfo.UID = UserResponse.ID (userResponse ! i),
                   Email = UserName (userResponse ! i),
                   UserInfo.UUID = UserResponse.UUID (userResponse ! i),
                   UserInfo.Passwd = UserResponse.Passwd (userResponse ! i),
                   UserInfo.SpeedLimit =
                     (if 0 <s UserResponse.NodeSpeedLimit (userResponse ! i)
                      then float_bytes x
                             (float_of_int64 x (UserResponse.NodeSpeedLimit (userResponse ! i)))
                      else float_bytes x (APIClient.SpeedLimit c)),
                   UserInfo.DeviceLimit = NodeConnector (userResponse ! i)\<rparr>
                \<and> UserInfo.SpeedLimit (?us ! i) =
                    calculateSpeedLimit x (UserResponse.NodeSpeedLimit (userResponse ! i))
                      (APIClient.SpeedLimit c)"
    by (simp add: user_record_spec_def calculateSpeedLimit_def)
  ultimately show ?thesis by blast
qed

lemma sample_float:
  "float_bytes sample_extern (float_of_int64 sample_extern 100) = 12500000"
  "float_bytes sample_extern (APIClient.SpeedLimit sample_client) = 6250000"
  by (simp_all add: sample_extern_def sample_client_def)

theorem GetUserList_map_witness:
  "fst (GetUserList sample_extern sample_client) =
     Inr [\<lparr>UserInfo.UID = 1, Email = ''ann@example'', UserInfo.UUID = ''u-1'',
           UserInfo.Passwd = ''p1'', UserInfo.SpeedLimit = 12500000,
           UserInfo.DeviceLimit = 3\<rparr>,
          \<lparr>UserInfo.UID = 2, Email = ''bob@example'', UserInfo.UUID = ''u-2'',
           UserInfo.Passwd = ''p2'', UserInfo.SpeedLimit = 6250000,
           UserInfo.DeviceLimit = 0\<rparr>]"
proof -
  let ?res = "\<lparr>StatusCode = 200, Status = ''200 OK'', ResHeader = [''Etag'' \<mapsto> ''v2''],
       Body = ''users-json''\<rparr>"
  have h2: "StatusCode ?res \<noteq> 304" by simp
  have h3: "Unmarshal_users sample_extern (Body ?res) = Inr sample_users"
    by (simp add: sample_extern_def)
  from GetUserList_map [OF sample_Get_fresh h2 h3]
  have "fst (GetUserList sample_extern sample_client) =
          Inr (map (user_record_spec sample_extern (APIClient.SpeedLimit sample_client))
                 sample_users)"
    by blast
  also have "map (user_record_spec sample_extern (APIClient.SpeedLimit sample_client))
                 sample_users =
     [\<lparr>UserInfo.UID = 1, Email = ''ann@example'', UserInfo.UUID = ''u-1'',
           UserInfo.Passwd = ''p1'', UserInfo.SpeedLimit = 12500000,
           UserInfo.DeviceLimit = 3\<rparr>,
          \<lparr>UserInfo.UID = 2, Email = ''bob@example'', UserInfo.UUID = ''u-2'',
           UserInfo.Passwd = ''p2'', UserInfo.SpeedLimit = 6250000,
           UserInfo.DeviceLimit = 0\<rparr>]"
    by (simp add: sample_users_def user_record_spec_def sample_float word_sless_alt)
  finally show ?thesis .
qed

subsection \<open>Online users\<close>

lemma group_online_lookup:
  "group_online vs m uid =
     (if uid \<in> api_OnlineUser.UID ` set vs
      then Some ((case m uid of None \<Rightarrow> [] | Some ips \<Rightarrow> ips)
                 @ map IP (filter (\<lambda>v. api_OnlineUser.UID v = uid) vs))
      else m uid)"
proof (induction vs arbitrary: m)
  case Nil
  then show ?case by simp
next
  case (Cons v vs)
  show ?case
    by (cases "api_OnlineUser.UID v = uid")
       (auto simp: Cons.IH filter_empty_conv image_iff split: option.splits)
qed

lemma group_online_empty: "group_online obs Map.empty = grouping_spec obs"
  by (rule ext) (simp add: group_online_lookup grouping_spec_def)

text \<open>
  C9. The body that \<^verbatim>\<open>ReportNodeOnlineUsers\<close> posts has the node id and the map that
  takes each user id of the observations to the IPs observed for it, in observation
  order, repetitions kept, and has no other key. On the observations (1, 1.1.1.1),
  (1, 1.1.1.1), (2, 2.2.2.2) the map is 1 to [1.1.1.1, 1.1.1.1] and 2 to [2.2.2.2].
\<close>

theorem online_users_grouping:
  "ReportNodeOnlineUsers x c onlineUserList =
     postRequest x c ''/api/public/airgo/user/AGReportNodeOnlineUsers''
       \<lparr>OnlineUser.NodeID = APIClient.NodeID c,
        UserNodeMap = grouping_spec onlineUserList\<rparr>
   \<and> (\<forall>uid. grouping_spec onlineUserList uid =
         (if uid \<in> api_OnlineUser.UID ` set onlineUserList
          then Some (map IP (filter (\<lambda>v. api_OnlineUser.UID v = uid) onlineUserList))
          else None))"
  by (simp add: ReportNodeOnlineUsers_def group_online_empty grouping_spec_def)

lemma sample_grouping:
  "grouping_spec sample_online = [1 \<mapsto> [''1.1.1.1'', ''1.1.1.1''], 2 \<mapsto> [''2.2.2.2'']]"
  by (rule ext) (simp add: grouping_spec_def sample_online_def)

theorem online_users_grouping_witness:
  "ReportNodeOnlineUsers sample_extern sample_client sample_online =
     postRequest sample_extern sample_client
       ''/api/public/airgo/user/AGReportNodeOnlineUsers''
       \<lparr>OnlineUser.NodeID = 7,
        UserNodeMap = [1 \<mapsto> [''1.1.1.1'', ''1.1.1.1''], 2 \<mapsto> [''2.2.2.2'']]\<rparr>"
  using online_users_grouping [of sample_extern sample_client sample_online]
  by (simp add: sample_grouping sample_client_def)

subsection \<open>No error from the node mapping\<close>

text \<open>
  C10. \<^verbatim>\<open>ParseAirGoNodeInfo\<close> returns a nil error for every descriptor, every client
  and every behaviour of the libraries: an unrecognised protocol, any security mode and
  a failing \<^verbatim>\<open>json.Marshal\<close> (whose error is dropped) included.
\<close>

theorem ParseAirGoNodeInfo_nil_error: "snd (ParseAirGoNodeInfo x c n) = None"
  by (simp add: ParseAirGoNodeInfo_def Let_def)

end
